theory Spec2Isabelle
  imports Main "HOL-Library.Sublist"
begin

section \<open>The package \<open>rdb\<close> (register.go)\<close>

text \<open>
  The package consists of one exported function, \<open>Register\<close>, the closure \<open>h\<close> it
  installs on an \<open>http.ServeMux\<close>, and the package-level template \<open>indexTmpl\<close>.
  Everything else (\<open>strings\<close>, \<open>runtime/pprof\<close>, \<open>net/http/pprof\<close>, \<open>text/template\<close>,
  \<open>net/http\<close>) is the Go standard library; the parts of it that \<open>register.go\<close>
  calls are modelled below as far as the calls need them.
\<close>

subsection \<open>\<open>strings.HasPrefix\<close> and \<open>strings.TrimPrefix\<close>\<close>

text \<open>
  \<^verbatim>\<open>func HasPrefix(s, prefix string) bool {
      return len(s) >= len(prefix) && s[0:len(prefix)] == prefix }
  func TrimPrefix(s, prefix string) string {
      if HasPrefix(s, prefix) { return s[len(prefix):] }
      return s }\<close>
  Go strings are byte sequences; \<open>string\<close> is a list of 8-bit characters.
\<close>

definition HasPrefix :: "string \<Rightarrow> string \<Rightarrow> bool" where
  "HasPrefix s pre = (length pre \<le> length s \<and> take (length pre) s = pre)"

definition TrimPrefix :: "string \<Rightarrow> string \<Rightarrow> string" where
  "TrimPrefix s pre = (if HasPrefix s pre then drop (length pre) s else s)"

subsection \<open>\<open>runtime/pprof\<close>: profiles and their live counts\<close>

text \<open>
  A \<open>*pprof.Profile\<close> is a reference to a profile of the runtime. Its name is fixed when
  the profile is created and names are unique in the runtime's registry, so the
  reference is identified with the name. \<open>p.Count()\<close> reads the number of samples the
  profile holds at the moment of the call: it is a function of the runtime state.
  \<open>pprof.Profiles()\<close> returns the profiles known at the moment of the call.
\<close>

datatype Profile = NewProfile (Name: string)

record runtime =
  pprof_Profiles :: "Profile list"
  Count :: "Profile \<Rightarrow> int"

subsection \<open>\<open>net/http\<close>: requests and response writers\<close>

text \<open>
  Of \<open>*http.Request\<close> the handler reads \<open>r.URL.Path\<close> only; the method and the raw query
  are carried along because the request is handed on to the delegated handlers.
\<close>

record Request =
  Method :: string
  URL_Path :: string
  URL_RawQuery :: string

datatype error =
    ParseError string
  | ExecError string
  | WriteError string
  | MultipleRegistrations string

text \<open>
  \<open>http.ResponseWriter\<close> is an interface. A value of it is a state \<open>'w\<close> together with its
  \<open>Write\<close> method, which returns the state after the call and the error of the call
  (\<open>None\<close> is Go's \<open>nil\<close>).
\<close>

type_synonym 'w Write = "'w \<Rightarrow> string \<Rightarrow> 'w \<times> error option"

subsection \<open>\<open>text/template\<close>: executing a parsed template\<close>

text \<open>
  The anonymous struct \<open>tmpInfo\<close> of \<open>Register\<close>.
\<close>

record tmpInfo =
  Profiles :: "Profile list"
  Info :: "string list"
  Prefix :: string

text \<open>
  Executing a template walks its nodes and writes one piece per node: a text node
  is copied to the writer; an action \<open>{{pipeline}}\<close> writes its value printed as
  \<open>fmt.Fprint\<close> prints it. \<open>text/template\<close> prints a string as it is and an \<open>int\<close> in
  decimal.
\<close>

datatype piece = TextNode string | StringValue string | IntValue int

definition digit :: "nat \<Rightarrow> char" where
  "digit d = char_of (48 + d)"

fun decimal :: "nat \<Rightarrow> string" where
  "decimal n = (if n < 10 then [digit n] else decimal (n div 10) @ [digit (n mod 10)])"

declare decimal.simps [simp del]

definition Itoa :: "int \<Rightarrow> string" where
  "Itoa i = (if i < 0 then CHR ''-'' # decimal (nat (- i)) else decimal (nat i))"

fun print :: "piece \<Rightarrow> string" where
  "print (TextNode s) = s"
| "print (StringValue s) = s"
| "print (IntValue i) = Itoa i"

text \<open>
  A parsed template, applied to the data and the runtime state it is executed in,
  yields the pieces it writes and the error that stopped it, if any (a field that
  cannot be evaluated, for instance).
\<close>

type_synonym template = "runtime \<Rightarrow> tmpInfo \<Rightarrow> piece list \<times> error option"

fun write_all :: "'w Write \<Rightarrow> 'w \<Rightarrow> string list \<Rightarrow> 'w \<times> error option" where
  "write_all Write w [] = (w, None)"
| "write_all Write w (s # ss) =
     (case Write w s of
        (w', Some e) \<Rightarrow> (w', Some e)
      | (w', None) \<Rightarrow> write_all Write w' ss)"

text \<open>
  \<open>t.Execute(w, data)\<close>: the pieces are written in order; the first failing \<open>Write\<close> stops
  the execution and its error is returned, otherwise the template's own error is.
\<close>

definition Execute :: "template \<Rightarrow> runtime \<Rightarrow> 'w Write \<Rightarrow> 'w \<Rightarrow> tmpInfo \<Rightarrow> 'w \<times> error option" where
  "Execute t rt Write w data =
     (case t rt data of
        (ps, e) \<Rightarrow>
          (case write_all Write w (map print ps) of
             (w', Some we) \<Rightarrow> (w', Some we)
           | (w', None) \<Rightarrow> (w', e)))"

subsection \<open>The index template\<close>

text \<open>
  The body of \<open>{{range .Profiles}} ... {{end}}\<close> for one profile: dot is the profile,
  \<open>$\<close> is the data the template was executed with.
\<close>

definition profile_row :: "runtime \<Rightarrow> tmpInfo \<Rightarrow> Profile \<Rightarrow> piece list" where
  \<open>profile_row rt data p =
     [TextNode ''\<newline>      <tr><td align=right>'',
      IntValue (Count rt p),
      TextNode ''<td><a href="'',
      StringValue (Prefix data),
      TextNode ''debug/pprof/'',
      StringValue (Name p),
      TextNode ''?debug=1">'',
      StringValue (Name p),
      TextNode ''</a>\<newline>    '']\<close>

text \<open>The body of \<open>{{range .Info}} ... {{end}}\<close> for one string.\<close>

definition info_row :: "tmpInfo \<Rightarrow> string \<Rightarrow> piece list" where
  \<open>info_row data s =
     [TextNode ''\<newline>      <tr><td align=right><td><a href="'',
      StringValue (Prefix data),
      TextNode ''debug/pprof/'',
      StringValue s,
      TextNode ''">'',
      StringValue s,
      TextNode ''</a>\<newline>    '']\<close>

definition index_pieces :: "runtime \<Rightarrow> tmpInfo \<Rightarrow> piece list" where
  \<open>index_pieces rt data =
     [TextNode ''<html>\<newline>  <head>\<newline>    <title>'',
      StringValue (Prefix data),
      TextNode ''debug/pprof/</title>\<newline>  </head>\<newline>  '',
      StringValue (Prefix data),
      TextNode ''debug/pprof/<br>\<newline>  <br>\<newline>  <body>\<newline>    profiles:<br>\<newline>    <table>\<newline>    '']
     @ concat (map (profile_row rt data) (Profiles data))
     @ [TextNode ''\<newline>    <tr><td align=right><td><a href="'',
        StringValue (Prefix data),
        TextNode ''debug/pprof/profile">CPU</a>\<newline>    </table>\<newline>    <br>\<newline>    debug information:<br>\<newline>    <table>\<newline>    '']
     @ concat (map (info_row data) (Info data))
     @ [TextNode ''\<newline>    <tr><td align=right><td><a href="'',
        StringValue (Prefix data),
        TextNode ''debug/pprof/goroutine?debug=2">full goroutine stack dump</a><br>\<newline>    <table>\<newline>  </body>\<newline></html>'']\<close>

text \<open>
  \<open>indexTmpl\<close>, the index template as parsed: every field and method it names exists on
  the data, so its execution has no error of its own.
\<close>

definition indexTmpl :: template where
  "indexTmpl rt data = (index_pieces rt data, None)"

text \<open>
  The template text, the argument of \<open>Parse\<close> in \<open>register.go\<close>.
\<close>

definition indexTmpl_source :: string where
  \<open>indexTmpl_source =
     ''<html>\<newline>  <head>\<newline>    <title>{{.Prefix}}debug/pprof/</title>\<newline>  </head>\<newline>  {{.Prefix}}debug/pprof/<br>\<newline>  <br>\<newline>  <body>\<newline>    profiles:<br>\<newline>    <table>\<newline>    {{range .Profiles}}\<newline>      <tr><td align=right>{{.Count}}<td><a href="{{$.Prefix}}debug/pprof/{{.Name}}?debug=1">{{.Name}}</a>\<newline>    {{end}}\<newline>    <tr><td align=right><td><a href="{{$.Prefix}}debug/pprof/profile">CPU</a>\<newline>    </table>\<newline>    <br>\<newline>    debug information:<br>\<newline>    <table>\<newline>    {{range .Info}}\<newline>      <tr><td align=right><td><a href="{{$.Prefix}}debug/pprof/{{.}}">{{.}}</a>\<newline>    {{end}}\<newline>    <tr><td align=right><td><a href="{{.Prefix}}debug/pprof/goroutine?debug=2">full goroutine stack dump</a><br>\<newline>    <table>\<newline>  </body>\<newline></html>''\<close>

text \<open>
  \<open>var indexTmpl = template.Must(template.New("index").Parse(...))\<close> runs once, when the
  package is initialised, before \<open>main\<close>.

  The parser belongs to \<open>text/template\<close> and is a parameter here. It is given with a
  state \<open>'p\<close> of its own, which every call of it takes and returns: what the state holds
  after a run tells which calls of the parser the run made. \<open>Parse\<close> returns a template
  and an error, of which the error is \<open>nil\<close> exactly when the text was parsed: the
  result is \<open>Inl\<close> of the error or \<open>Inr\<close> of the template.
\<close>

type_synonym 'p Parse = "'p \<Rightarrow> string \<Rightarrow> 'p \<times> (error + template)"

text \<open>
  A panic carries the value \<open>panic\<close> was called with. It is no error value that a caller
  receives: no function of this package recovers, so a panic ends the program.
\<close>

datatype panic = Panic error

text \<open>
  \<^verbatim>\<open>func Must(t *Template, err error) *Template {
      if err != nil { panic(err) }
      return t }\<close>
\<close>

definition template_Must :: "error + template \<Rightarrow> panic + template" where
  "template_Must parsed = (case parsed of Inl err \<Rightarrow> Inl (Panic err) | Inr t \<Rightarrow> Inr t)"

text \<open>
  The initialisation of the package: the one call of the parser, on the template text,
  and \<open>template.Must\<close> on what it returned. The result is the panic that ended it or the
  value of the package variable \<open>indexTmpl\<close>, which is the argument \<open>tmpl\<close> of the handler
  below.
\<close>

definition package_init :: "'p Parse \<Rightarrow> 'p \<Rightarrow> 'p \<times> (panic + template)" where
  "package_init Parse p =
     (case Parse p indexTmpl_source of (p', parsed) \<Rightarrow> (p', template_Must parsed))"

subsection \<open>The handler \<open>h\<close>\<close>

text \<open>
  The closure \<open>h\<close> of \<open>Register\<close>, with what it refers to as arguments: the package
  variable \<open>indexTmpl\<close> (\<open>tmpl\<close>), the captured \<open>prefix\<close> (written \<open>pfx\<close>, \<open>prefix\<close> being
  a constant of the list library) and \<open>tmpInfo\<close> (\<open>info\<close>), the runtime state at the
  request, and \<open>w\<close> and \<open>r\<close>.
  \<open>h\<close> either executes the index template on \<open>w\<close> and returns, dropping the error that
  \<open>Execute\<close> returned, or ends in a call of a handler of \<open>net/http/pprof\<close> with its own
  arguments \<open>w\<close> and \<open>r\<close>. The outcome records which.
\<close>

datatype 'w outcome =
    Index_Executed 'w
  | nhpprof_Cmdline 'w Request
  | nhpprof_Profile 'w Request
  | nhpprof_Symbol 'w Request
  | nhpprof_Handler string 'w Request

definition h_name :: "string \<Rightarrow> Request \<Rightarrow> string" where
  "h_name pfx r = TrimPrefix (URL_Path r) (pfx @ ''debug/pprof/'')"

definition h :: "template \<Rightarrow> string \<Rightarrow> tmpInfo \<Rightarrow> runtime \<Rightarrow> 'w Write \<Rightarrow> 'w \<Rightarrow> Request \<Rightarrow> 'w outcome" where
  "h tmpl pfx info rt Write w r =
     (let name = h_name pfx r in
      if name = '''' then Index_Executed (fst (Execute tmpl rt Write w info))
      else if name = ''cmdline'' then nhpprof_Cmdline w r
      else if name = ''profile'' then nhpprof_Profile w r
      else if name = ''symbol'' then nhpprof_Symbol w r
      else nhpprof_Handler name w r)"

text \<open>The case of the \<open>switch\<close> that an outcome comes from.\<close>

datatype branch = case_empty | case_cmdline | case_profile | case_symbol | case_default string

fun branch_of :: "'w outcome \<Rightarrow> branch" where
  "branch_of (Index_Executed w) = case_empty"
| "branch_of (nhpprof_Cmdline w r) = case_cmdline"
| "branch_of (nhpprof_Profile w r) = case_profile"
| "branch_of (nhpprof_Symbol w r) = case_symbol"
| "branch_of (nhpprof_Handler name w r) = case_default name"

subsection \<open>\<open>Register\<close>\<close>

text \<open>
  A handler function as the mux stores it. The runtime state is the state of the
  process at the moment the request is served.
\<close>

type_synonym 'w HandlerFunc = "runtime \<Rightarrow> 'w Write \<Rightarrow> 'w \<Rightarrow> Request \<Rightarrow> 'w outcome"

text \<open>
  Modelled from the spec: the router and its registration (\<open>http.ServeMux\<close> and its
  method \<open>HandleFunc\<close> belong to \<open>net/http\<close>, not to this package). The spec describes
  a route table keyed by pattern whose registration adds the route and fails only when
  the router rejects a second registration of the same pattern. The failure is a panic
  in Go; here it is the \<open>Inl\<close> result.
\<close>

type_synonym 'h ServeMux = "string \<rightharpoonup> 'h"

definition HandleFunc :: "string \<Rightarrow> 'h \<Rightarrow> 'h ServeMux \<Rightarrow> error + 'h ServeMux" where
  "HandleFunc pattern handler mux =
     (case mux pattern of
        Some registered \<Rightarrow> Inl (MultipleRegistrations pattern)
      | None \<Rightarrow> Inr (mux(pattern \<mapsto> handler)))"

text \<open>
  The value of \<open>tmpInfo\<close> that \<open>Register\<close> builds: \<open>pprof.Profiles()\<close> is called here, in
  the runtime state \<open>rt0\<close> of the registration.
\<close>

definition Register_tmpInfo :: "string \<Rightarrow> runtime \<Rightarrow> tmpInfo" where
  "Register_tmpInfo pfx rt0 =
     \<lparr>Profiles = pprof_Profiles rt0, Info = [''cmdline'', ''symbol''], Prefix = pfx\<rparr>"

definition Register :: "template \<Rightarrow> string \<Rightarrow> runtime \<Rightarrow> 'w HandlerFunc ServeMux \<Rightarrow> error + 'w HandlerFunc ServeMux" where
  "Register tmpl pfx rt0 mux = HandleFunc pfx (h tmpl pfx (Register_tmpInfo pfx rt0)) mux"

subsection \<open>Serving requests with a registered handler\<close>

text \<open>
  The variables \<open>h\<close> captures, \<open>prefix\<close> and \<open>tmpInfo\<close>, live as long as the handler does. A
  Go closure may assign to what it captures, so a call of \<open>h\<close> is a step on these
  variables; \<open>h\<close> contains no assignment, and the step returns them as they were.
\<close>

record closure =
  captured_prefix :: string
  captured_tmpInfo :: tmpInfo

definition Register_closure :: "string \<Rightarrow> runtime \<Rightarrow> closure" where
  "Register_closure pfx rt0 =
     \<lparr>captured_prefix = pfx, captured_tmpInfo = Register_tmpInfo pfx rt0\<rparr>"

text \<open>One call of the handler: the runtime state at that moment, the writer and the request.\<close>

type_synonym 'w call = "runtime \<times> 'w Write \<times> 'w \<times> Request"

fun call_h :: "template \<Rightarrow> closure \<Rightarrow> 'w call \<Rightarrow> closure \<times> 'w outcome" where
  "call_h tmpl c (rt, Write, w, r) =
     (c, h tmpl (captured_prefix c) (captured_tmpInfo c) rt Write w r)"

fun serve :: "template \<Rightarrow> closure \<Rightarrow> 'w call list \<Rightarrow> closure \<times> 'w outcome list" where
  "serve tmpl c [] = (c, [])"
| "serve tmpl c (x # xs) =
     (case call_h tmpl c x of
        (c', out) \<Rightarrow> (case serve tmpl c' xs of (c'', outs) \<Rightarrow> (c'', out # outs)))"

text \<open>
  The life of a program that uses the package, as in the example of the package
  comment: the package is initialised; a panic there ends the program before \<open>main\<close>,
  and no request is ever served; otherwise \<open>main\<close> registers the handler under the prefix
  and the server calls it for the requests that come, in order. The result is the
  state of the parser at the end, and the panic that ended the program or the outcomes
  of the requests.
\<close>

definition process :: "'p Parse \<Rightarrow> 'p \<Rightarrow> string \<Rightarrow> runtime \<Rightarrow> 'w call list \<Rightarrow> 'p \<times> (panic + 'w outcome list)" where
  "process Parse p pfx rt0 calls =
     (case package_init Parse p of
        (p', Inl pan) \<Rightarrow> (p', Inl pan)
      | (p', Inr tmpl) \<Rightarrow> (p', Inr (snd (serve tmpl (Register_closure pfx rt0) calls))))"

subsection \<open>The rendered index body\<close>

text \<open>
  A writer that appends to a buffer and never fails (\<open>bytes.Buffer\<close>,
  \<open>httptest.ResponseRecorder\<close>).
\<close>

definition buffer_Write :: "string Write" where
  "buffer_Write w s = (w @ s, None)"

text \<open>A writer whose connection is gone: nothing is written and every call fails.\<close>

definition broken_Write :: "string Write" where
  "broken_Write w s = (w, Some (WriteError ''broken pipe''))"

text \<open>The bytes the index template produces: its pieces, printed, in order.\<close>

definition index_body :: "runtime \<Rightarrow> tmpInfo \<Rightarrow> string" where
  "index_body rt data = concat (map print (index_pieces rt data))"

text \<open>The sample counts a list of pieces shows.\<close>

fun shown_counts :: "piece list \<Rightarrow> int list" where
  "shown_counts [] = []"
| "shown_counts (IntValue i # ps) = i # shown_counts ps"
| "shown_counts (p # ps) = shown_counts ps"

subsection \<open>The rendering the spec describes: escaped values\<close>

text \<open>
  The spec asks for every dynamic string value to be put into the page in HTML-safe
  form. \<open>spec_print\<close> follows these words: a string value is printed escaped, as
  \<open>html.EscapeString\<close> escapes it. It is the yardstick the template's own printing is
  compared with; \<open>register.go\<close> does not call it.
\<close>

definition html_significant :: "char \<Rightarrow> bool" where
  "html_significant c \<longleftrightarrow> c \<in> {CHR ''<'', CHR ''>'', CHR ''&'', CHR 0x27, CHR 0x22}"

definition html_escape_char :: "char \<Rightarrow> string" where
  "html_escape_char c =
     (if c = CHR ''<'' then ''&lt;''
      else if c = CHR ''>'' then ''&gt;''
      else if c = CHR ''&'' then ''&amp;''
      else if c = CHR 0x27 then ''&#39;''
      else if c = CHR 0x22 then ''&#34;''
      else [c])"

definition html_EscapeString :: "string \<Rightarrow> string" where
  "html_EscapeString s = concat (map html_escape_char s)"

fun spec_print :: "piece \<Rightarrow> string" where
  "spec_print (TextNode s) = s"
| "spec_print (StringValue s) = html_EscapeString s"
| "spec_print (IntValue i) = Itoa i"

definition spec_index_body :: "runtime \<Rightarrow> tmpInfo \<Rightarrow> string" where
  "spec_index_body rt data = concat (map spec_print (index_pieces rt data))"

subsection \<open>Links of the index page\<close>

text \<open>
  The opening tag of a link to \<open>url\<close>, as the template writes its links; used to state
  what the page contains.
\<close>

definition href :: "string \<Rightarrow> string" where
  \<open>href url = ''<a href="'' @ url @ ''">''\<close>

subsection \<open>Example states\<close>

definition heap_profile :: Profile where
  "heap_profile = NewProfile ''heap''"

definition goroutine_profile :: Profile where
  "goroutine_profile = NewProfile ''goroutine''"

definition runtime_at_start :: runtime where
  "runtime_at_start =
     \<lparr>pprof_Profiles = [goroutine_profile, heap_profile],
      Count = (\<lambda>p. if p = goroutine_profile then 3 else if p = heap_profile then 12 else 0)\<rparr>"

definition runtime_later :: runtime where
  "runtime_later =
     \<lparr>pprof_Profiles = [goroutine_profile, heap_profile],
      Count = (\<lambda>p. if p = goroutine_profile then 5 else if p = heap_profile then 40 else 0)\<rparr>"

definition get_request :: "string \<Rightarrow> Request" where
  "get_request path = \<lparr>Method = ''GET'', URL_Path = path, URL_RawQuery = ''''\<rparr>"

definition post_request :: "string \<Rightarrow> Request" where
  "post_request path = \<lparr>Method = ''POST'', URL_Path = path, URL_RawQuery = ''''\<rparr>"

text \<open>
  Two parsers that count their calls: one rejects its input, the other yields the index
  template for the template text.
\<close>

definition rejecting_Parse :: "nat Parse" where
  "rejecting_Parse n text = (Suc n, Inl (ParseError ''template: index: unexpected EOF''))"

definition accepting_Parse :: "nat Parse" where
  "accepting_Parse n text =
     (Suc n, if text = indexTmpl_source then Inr indexTmpl
             else Inl (ParseError ''template: index: unexpected input''))"

text \<open>A runtime in which the application has created a profile whose name contains markup.\<close>

definition markup_profile :: Profile where
  "markup_profile = NewProfile ''<i>''"

definition runtime_with_markup :: runtime where
  "runtime_with_markup = \<lparr>pprof_Profiles = [markup_profile], Count = (\<lambda>p. 1)\<rparr>"

section \<open>Properties\<close>

subsection \<open>Prefix stripping\<close>

lemma HasPrefix_append: "HasPrefix (pre @ s) pre"
  by (simp add: HasPrefix_def)

lemma TrimPrefix_append: "TrimPrefix (pre @ s) pre = s"
  by (simp add: TrimPrefix_def HasPrefix_append)

lemma HasPrefix_iff: "HasPrefix s pre \<longleftrightarrow> (\<exists>t. s = pre @ t)"
proof
  assume "HasPrefix s pre"
  then have "s = pre @ drop (length pre) s"
    by (metis HasPrefix_def append_take_drop_id)
  then show "\<exists>t. s = pre @ t" ..
next
  assume "\<exists>t. s = pre @ t"
  then show "HasPrefix s pre"
    by (auto simp: HasPrefix_append)
qed

lemma TrimPrefix_unchanged: "\<not> HasPrefix s pre \<Longrightarrow> TrimPrefix s pre = s"
  by (simp add: TrimPrefix_def)

subsection \<open>The dispatch table\<close>

lemma h_name_stripped: "URL_Path r = pfx @ ''debug/pprof/'' @ n \<Longrightarrow> h_name pfx r = n"
  using TrimPrefix_append [of "pfx @ ''debug/pprof/''" n] by (simp add: h_name_def)

lemma h_name_mismatch:
  "\<not> (\<exists>t. URL_Path r = pfx @ ''debug/pprof/'' @ t) \<Longrightarrow> h_name pfx r = URL_Path r"
  unfolding h_name_def
  by (rule TrimPrefix_unchanged) (simp add: HasPrefix_iff)

lemma h_case_empty:
  "h_name pfx r = '''' \<Longrightarrow>
     h tmpl pfx info rt Write w r = Index_Executed (fst (Execute tmpl rt Write w info))"
  by (simp add: h_def)

lemma h_case_cmdline:
  "h_name pfx r = ''cmdline'' \<Longrightarrow> h tmpl pfx info rt Write w r = nhpprof_Cmdline w r"
  by (simp add: h_def)

lemma h_case_profile:
  "h_name pfx r = ''profile'' \<Longrightarrow> h tmpl pfx info rt Write w r = nhpprof_Profile w r"
  by (simp add: h_def)

lemma h_case_symbol:
  "h_name pfx r = ''symbol'' \<Longrightarrow> h tmpl pfx info rt Write w r = nhpprof_Symbol w r"
  by (simp add: h_def)

lemma h_case_default:
  "h_name pfx r \<notin> {'''', ''cmdline'', ''profile'', ''symbol''} \<Longrightarrow>
     h tmpl pfx info rt Write w r = nhpprof_Handler (h_name pfx r) w r"
  by (simp add: h_def)

text \<open>
  C1. For every request the handler computes \<open>name\<close> by stripping \<open>prefix + "debug/pprof/"\<close>
  from the front of \<open>r.URL.Path\<close> (so a path \<open>prefix + "debug/pprof/" + n\<close> gives the name
  \<open>n\<close>) and dispatches on it: the empty name executes the index template, \<open>cmdline\<close>,
  \<open>profile\<close> and \<open>symbol\<close> go to the handlers of \<open>net/http/pprof\<close> of these names, and every
  other name goes to the named-profile handler \<open>nhpprof.Handler(name)\<close>; each delegate
  receives the handler's own \<open>w\<close> and \<open>r\<close>.
\<close>

theorem h_dispatch:
  "h_name pfx r = TrimPrefix (URL_Path r) (pfx @ ''debug/pprof/'')
   \<and> (\<forall>n. URL_Path r = pfx @ ''debug/pprof/'' @ n \<longrightarrow> h_name pfx r = n)
   \<and> (h_name pfx r = '''' \<longrightarrow>
        h tmpl pfx info rt Write w r = Index_Executed (fst (Execute tmpl rt Write w info)))
   \<and> (h_name pfx r = ''cmdline'' \<longrightarrow> h tmpl pfx info rt Write w r = nhpprof_Cmdline w r)
   \<and> (h_name pfx r = ''profile'' \<longrightarrow> h tmpl pfx info rt Write w r = nhpprof_Profile w r)
   \<and> (h_name pfx r = ''symbol'' \<longrightarrow> h tmpl pfx info rt Write w r = nhpprof_Symbol w r)
   \<and> (h_name pfx r \<notin> {'''', ''cmdline'', ''profile'', ''symbol''} \<longrightarrow>
        h tmpl pfx info rt Write w r = nhpprof_Handler (h_name pfx r) w r)"
proof (intro conjI allI impI)
  show "h_name pfx r = TrimPrefix (URL_Path r) (pfx @ ''debug/pprof/'')"
    by (simp add: h_name_def)
qed (simp_all add: h_name_stripped h_case_empty h_case_cmdline h_case_profile
      h_case_symbol h_case_default)

theorem h_dispatch_witness:
  "h indexTmpl ''/dbg/'' (Register_tmpInfo ''/dbg/'' runtime_at_start) runtime_later buffer_Write ''''
     (get_request ''/dbg/debug/pprof/'')
   = Index_Executed (fst (Execute indexTmpl runtime_later buffer_Write ''''
       (Register_tmpInfo ''/dbg/'' runtime_at_start)))
   \<and> h indexTmpl ''/dbg/'' (Register_tmpInfo ''/dbg/'' runtime_at_start) runtime_later buffer_Write ''''
     (get_request ''/dbg/debug/pprof/cmdline'') = nhpprof_Cmdline '''' (get_request ''/dbg/debug/pprof/cmdline'')
   \<and> h indexTmpl ''/dbg/'' (Register_tmpInfo ''/dbg/'' runtime_at_start) runtime_later buffer_Write ''''
     (get_request ''/dbg/debug/pprof/profile'') = nhpprof_Profile '''' (get_request ''/dbg/debug/pprof/profile'')
   \<and> h indexTmpl ''/dbg/'' (Register_tmpInfo ''/dbg/'' runtime_at_start) runtime_later buffer_Write ''''
     (get_request ''/dbg/debug/pprof/symbol'') = nhpprof_Symbol '''' (get_request ''/dbg/debug/pprof/symbol'')
   \<and> h indexTmpl ''/dbg/'' (Register_tmpInfo ''/dbg/'' runtime_at_start) runtime_later buffer_Write ''''
     (get_request ''/dbg/debug/pprof/heap'') = nhpprof_Handler ''heap'' '''' (get_request ''/dbg/debug/pprof/heap'')"
proof -
  let ?d = "Register_tmpInfo ''/dbg/'' runtime_at_start"
  note D = h_dispatch [of "''/dbg/''" _ indexTmpl ?d runtime_later buffer_Write "''''"]
  have name: "h_name ''/dbg/'' (get_request (''/dbg/'' @ ''debug/pprof/'' @ n)) = n" for n
  proof -
    have "URL_Path (get_request (''/dbg/'' @ ''debug/pprof/'' @ n)) = ''/dbg/'' @ ''debug/pprof/'' @ n"
      by (simp add: get_request_def)
    with D [of "get_request (''/dbg/'' @ ''debug/pprof/'' @ n)"] show ?thesis
      by blast
  qed
  have n0: "h_name ''/dbg/'' (get_request ''/dbg/debug/pprof/'') = ''''"
    using name [of "''''"] by simp
  have n1: "h_name ''/dbg/'' (get_request ''/dbg/debug/pprof/cmdline'') = ''cmdline''"
    using name [of "''cmdline''"] by simp
  have n2: "h_name ''/dbg/'' (get_request ''/dbg/debug/pprof/profile'') = ''profile''"
    using name [of "''profile''"] by simp
  have n3: "h_name ''/dbg/'' (get_request ''/dbg/debug/pprof/symbol'') = ''symbol''"
    using name [of "''symbol''"] by simp
  have n4: "h_name ''/dbg/'' (get_request ''/dbg/debug/pprof/heap'') = ''heap''"
    using name [of "''heap''"] by simp
  have n4': "h_name ''/dbg/'' (get_request ''/dbg/debug/pprof/heap'')
      \<notin> {'''', ''cmdline'', ''profile'', ''symbol''}"
    unfolding n4 by simp
  from D [of "get_request ''/dbg/debug/pprof/''"] n0
  have c0: "h indexTmpl ''/dbg/'' ?d runtime_later buffer_Write '''' (get_request ''/dbg/debug/pprof/'')
      = Index_Executed (fst (Execute indexTmpl runtime_later buffer_Write '''' ?d))"
    by blast
  from D [of "get_request ''/dbg/debug/pprof/cmdline''"] n1
  have c1: "h indexTmpl ''/dbg/'' ?d runtime_later buffer_Write '''' (get_request ''/dbg/debug/pprof/cmdline'')
      = nhpprof_Cmdline '''' (get_request ''/dbg/debug/pprof/cmdline'')"
    by blast
  from D [of "get_request ''/dbg/debug/pprof/profile''"] n2
  have c2: "h indexTmpl ''/dbg/'' ?d runtime_later buffer_Write '''' (get_request ''/dbg/debug/pprof/profile'')
      = nhpprof_Profile '''' (get_request ''/dbg/debug/pprof/profile'')"
    by blast
  from D [of "get_request ''/dbg/debug/pprof/symbol''"] n3
  have c3: "h indexTmpl ''/dbg/'' ?d runtime_later buffer_Write '''' (get_request ''/dbg/debug/pprof/symbol'')
      = nhpprof_Symbol '''' (get_request ''/dbg/debug/pprof/symbol'')"
    by blast
  from D [of "get_request ''/dbg/debug/pprof/heap''"] n4'
  have "h indexTmpl ''/dbg/'' ?d runtime_later buffer_Write '''' (get_request ''/dbg/debug/pprof/heap'')
      = nhpprof_Handler (h_name ''/dbg/'' (get_request ''/dbg/debug/pprof/heap'')) ''''
          (get_request ''/dbg/debug/pprof/heap'')"
    by blast
  then have c4: "h indexTmpl ''/dbg/'' ?d runtime_later buffer_Write '''' (get_request ''/dbg/debug/pprof/heap'')
      = nhpprof_Handler ''heap'' '''' (get_request ''/dbg/debug/pprof/heap'')"
    unfolding n4 .
  from c0 c1 c2 c3 c4 show ?thesis
    by (intro conjI)
qed

subsection \<open>Paths that do not carry the expected prefix\<close>

text \<open>
  C3. When the request path does not begin with \<open>prefix + "debug/pprof/"\<close>, the name is the
  unmodified path and the handler goes on to its switch as for any other name: a path
  that is none of the case literals reaches the default case, the named-profile
  handler called with the whole path as the name; a path equal to a case literal
  takes that case. The outcome is a branch of the switch in every case, never an
  error of the handler's own.
\<close>

theorem h_mismatched_path:
  assumes "\<not> (\<exists>t. URL_Path r = pfx @ ''debug/pprof/'' @ t)"
  shows "h_name pfx r = URL_Path r
   \<and> (URL_Path r \<notin> {'''', ''cmdline'', ''profile'', ''symbol''} \<longrightarrow>
        h tmpl pfx info rt Write w r = nhpprof_Handler (URL_Path r) w r)
   \<and> (URL_Path r = '''' \<longrightarrow>
        h tmpl pfx info rt Write w r = Index_Executed (fst (Execute tmpl rt Write w info)))
   \<and> (URL_Path r = ''cmdline'' \<longrightarrow> h tmpl pfx info rt Write w r = nhpprof_Cmdline w r)
   \<and> (URL_Path r = ''profile'' \<longrightarrow> h tmpl pfx info rt Write w r = nhpprof_Profile w r)
   \<and> (URL_Path r = ''symbol'' \<longrightarrow> h tmpl pfx info rt Write w r = nhpprof_Symbol w r)"
proof -
  have name: "h_name pfx r = URL_Path r"
    using assms by (rule h_name_mismatch)
  show ?thesis
    using h_case_default [of pfx r tmpl info rt Write w] h_case_empty [of pfx r tmpl info rt Write w]
      h_case_cmdline [of pfx r tmpl info rt Write w] h_case_profile [of pfx r tmpl info rt Write w]
      h_case_symbol [of pfx r tmpl info rt Write w]
    unfolding name by simp
qed

theorem h_mismatched_path_witness:
  "\<not> (\<exists>t. URL_Path (get_request ''/other/heap'') = ''/dbg/'' @ ''debug/pprof/'' @ t)
   \<and> h_name ''/dbg/'' (get_request ''/other/heap'') = ''/other/heap''
   \<and> h indexTmpl ''/dbg/'' (Register_tmpInfo ''/dbg/'' runtime_at_start) runtime_later
        buffer_Write '''' (get_request ''/other/heap'')
      = nhpprof_Handler ''/other/heap'' '''' (get_request ''/other/heap'')"
proof -
  have path: "URL_Path (get_request ''/other/heap'') = ''/other/heap''"
    by (simp add: get_request_def)
  have hyp: "\<not> (\<exists>t. URL_Path (get_request ''/other/heap'') = ''/dbg/'' @ ''debug/pprof/'' @ t)"
    unfolding path by simp
  have other: "URL_Path (get_request ''/other/heap'') \<notin> {'''', ''cmdline'', ''profile'', ''symbol''}"
    unfolding path by simp
  from h_mismatched_path [OF hyp, of indexTmpl "Register_tmpInfo ''/dbg/'' runtime_at_start"
      runtime_later buffer_Write "''''"] other
  have "h_name ''/dbg/'' (get_request ''/other/heap'') = URL_Path (get_request ''/other/heap'')"
    and "h indexTmpl ''/dbg/'' (Register_tmpInfo ''/dbg/'' runtime_at_start) runtime_later
        buffer_Write '''' (get_request ''/other/heap'')
      = nhpprof_Handler (URL_Path (get_request ''/other/heap'')) '''' (get_request ''/other/heap'')"
    by blast+
  then show ?thesis
    using hyp unfolding path by (intro conjI)
qed

subsection \<open>The request method\<close>

text \<open>
  C10. The handler never reads the request method: two requests with the same URL path
  (whatever their methods and queries) give the same name and take the same case of
  the switch; when that case is the index it is the same outcome altogether, and
  otherwise each request is handed to the same delegate unchanged, its method included.
\<close>

theorem h_ignores_method:
  assumes "URL_Path r1 = URL_Path r2"
  shows "h_name pfx r1 = h_name pfx r2
   \<and> branch_of (h tmpl pfx info rt Write w r1) = branch_of (h tmpl pfx info rt Write w r2)
   \<and> (h_name pfx r1 = '''' \<longrightarrow>
        h tmpl pfx info rt Write w r1 = h tmpl pfx info rt Write w r2)"
proof -
  have name: "h_name pfx r1 = h_name pfx r2"
    using assms by (simp add: h_name_def)
  show ?thesis
    by (simp add: h_def name Let_def)
qed

theorem h_ignores_method_witness:
  "URL_Path (get_request ''/dbg/debug/pprof/symbol'') = URL_Path (post_request ''/dbg/debug/pprof/symbol'')
   \<and> Method (get_request ''/dbg/debug/pprof/symbol'') \<noteq> Method (post_request ''/dbg/debug/pprof/symbol'')
   \<and> h_name ''/dbg/'' (get_request ''/dbg/debug/pprof/symbol'')
      = h_name ''/dbg/'' (post_request ''/dbg/debug/pprof/symbol'')
   \<and> branch_of (h indexTmpl ''/dbg/'' (Register_tmpInfo ''/dbg/'' runtime_at_start) runtime_later
        buffer_Write '''' (get_request ''/dbg/debug/pprof/symbol''))
      = branch_of (h indexTmpl ''/dbg/'' (Register_tmpInfo ''/dbg/'' runtime_at_start) runtime_later
        buffer_Write '''' (post_request ''/dbg/debug/pprof/symbol''))"
proof -
  have hyp: "URL_Path (get_request ''/dbg/debug/pprof/symbol'')
      = URL_Path (post_request ''/dbg/debug/pprof/symbol'')"
    by (simp add: get_request_def post_request_def)
  have meth: "Method (get_request ''/dbg/debug/pprof/symbol'')
      \<noteq> Method (post_request ''/dbg/debug/pprof/symbol'')"
    by (simp add: get_request_def post_request_def)
  from h_ignores_method [OF hyp, of "''/dbg/''" indexTmpl
      "Register_tmpInfo ''/dbg/'' runtime_at_start" runtime_later buffer_Write "''''"] hyp meth
  show ?thesis
    by blast
qed

subsection \<open>Registration\<close>

lemma HandleFunc_fresh: "mux pattern = None \<Longrightarrow> HandleFunc pattern f mux = Inr (mux(pattern \<mapsto> f))"
  by (simp add: HandleFunc_def)

lemma HandleFunc_taken: "mux pattern = Some g \<Longrightarrow> HandleFunc pattern f mux = Inl (MultipleRegistrations pattern)"
  by (simp add: HandleFunc_def)

text \<open>
  C6. \<open>Register(prefix, mux)\<close> makes one registration, of the handler \<open>h\<close> under the key
  \<open>prefix\<close>. On a mux with no route at \<open>prefix\<close> it succeeds and the route table afterwards
  is the one before with that single entry added: the key set grows by \<open>prefix\<close> alone
  and every other key maps to what it mapped to. It fails exactly when the mux
  already holds a route at \<open>prefix\<close>, with the mux's rejection of the second
  registration, at the call of \<open>Register\<close>.
\<close>

theorem Register_one_route:
  "(mux pfx = None \<longrightarrow>
      (\<exists>mux'. Register tmpl pfx rt0 mux = Inr mux'
         \<and> mux' pfx = Some (h tmpl pfx (Register_tmpInfo pfx rt0))
         \<and> dom mux' = insert pfx (dom mux)
         \<and> (\<forall>k. k \<noteq> pfx \<longrightarrow> mux' k = mux k)))
   \<and> (mux pfx \<noteq> None \<longrightarrow> Register tmpl pfx rt0 mux = Inl (MultipleRegistrations pfx))
   \<and> (\<forall>err. Register tmpl pfx rt0 mux = Inl err \<longrightarrow>
        err = MultipleRegistrations pfx \<and> mux pfx \<noteq> None)"
proof (intro conjI impI allI)
  assume fresh: "mux pfx = None"
  let ?mux' = "mux(pfx \<mapsto> h tmpl pfx (Register_tmpInfo pfx rt0))"
  have "Register tmpl pfx rt0 mux = Inr ?mux'"
    unfolding Register_def using fresh by (rule HandleFunc_fresh)
  moreover have "?mux' pfx = Some (h tmpl pfx (Register_tmpInfo pfx rt0))"
    by simp
  moreover have "dom ?mux' = insert pfx (dom mux)"
    by simp
  moreover have "\<forall>k. k \<noteq> pfx \<longrightarrow> ?mux' k = mux k"
    by simp
  ultimately show "\<exists>mux'. Register tmpl pfx rt0 mux = Inr mux'
         \<and> mux' pfx = Some (h tmpl pfx (Register_tmpInfo pfx rt0))
         \<and> dom mux' = insert pfx (dom mux)
         \<and> (\<forall>k. k \<noteq> pfx \<longrightarrow> mux' k = mux k)"
    by blast
next
  assume "mux pfx \<noteq> None"
  then obtain g where "mux pfx = Some g"
    by blast
  then show "Register tmpl pfx rt0 mux = Inl (MultipleRegistrations pfx)"
    unfolding Register_def by (rule HandleFunc_taken)
next
  fix err
  assume failed: "Register tmpl pfx rt0 mux = Inl err"
  then show "err = MultipleRegistrations pfx"
    by (cases "mux pfx") (simp_all add: Register_def HandleFunc_def)
  from failed show "mux pfx \<noteq> None"
    by (cases "mux pfx") (simp_all add: Register_def HandleFunc_def)
qed

text \<open>
  Two registrations on an empty mux: \<open>/a/\<close> and then \<open>/b/\<close> succeed, the second leaving
  the route at \<open>/a/\<close> as it was; registering \<open>/a/\<close> again is rejected.
\<close>

theorem Register_one_route_witness:
  "(\<exists>mux'. Register indexTmpl ''/b/'' runtime_at_start
        ((Map.empty :: string HandlerFunc ServeMux)
           (''/a/'' \<mapsto> h indexTmpl ''/a/'' (Register_tmpInfo ''/a/'' runtime_at_start))) = Inr mux'
      \<and> mux' ''/b/'' = Some (h indexTmpl ''/b/'' (Register_tmpInfo ''/b/'' runtime_at_start))
      \<and> mux' ''/a/'' = Some (h indexTmpl ''/a/'' (Register_tmpInfo ''/a/'' runtime_at_start)))
   \<and> Register indexTmpl ''/a/'' runtime_at_start
        ((Map.empty :: string HandlerFunc ServeMux)
           (''/a/'' \<mapsto> h indexTmpl ''/a/'' (Register_tmpInfo ''/a/'' runtime_at_start)))
      = Inl (MultipleRegistrations ''/a/'')"
proof -
  let ?ha = "h indexTmpl ''/a/'' (Register_tmpInfo ''/a/'' runtime_at_start) :: string HandlerFunc"
  let ?mux = "(Map.empty :: string HandlerFunc ServeMux)(''/a/'' \<mapsto> ?ha)"
  have fresh: "?mux ''/b/'' = None"
    by simp
  have taken: "?mux ''/a/'' \<noteq> None"
    by simp
  have other: "''/a/'' \<noteq> ''/b/''"
    by simp
  have dup: "Register indexTmpl ''/a/'' runtime_at_start ?mux = Inl (MultipleRegistrations ''/a/'')"
    using conjunct1 [OF conjunct2 [OF Register_one_route [of ?mux "''/a/''" indexTmpl runtime_at_start]]]
      taken by (rule mp)
  have "\<exists>mux'. Register indexTmpl ''/b/'' runtime_at_start ?mux = Inr mux'
         \<and> mux' ''/b/'' = Some (h indexTmpl ''/b/'' (Register_tmpInfo ''/b/'' runtime_at_start))
         \<and> dom mux' = insert ''/b/'' (dom ?mux)
         \<and> (\<forall>k. k \<noteq> ''/b/'' \<longrightarrow> mux' k = ?mux k)"
    using conjunct1 [OF Register_one_route [of ?mux "''/b/''" indexTmpl runtime_at_start]]
      fresh by (rule mp)
  then show ?thesis
  proof (elim exE conjE)
    fix mux' :: "string HandlerFunc ServeMux"
    assume reg: "Register indexTmpl ''/b/'' runtime_at_start ?mux = Inr mux'"
      and new: "mux' ''/b/'' = Some (h indexTmpl ''/b/'' (Register_tmpInfo ''/b/'' runtime_at_start))"
      and frame: "\<forall>k. k \<noteq> ''/b/'' \<longrightarrow> mux' k = ?mux k"
    from frame have "''/a/'' \<noteq> ''/b/'' \<longrightarrow> mux' ''/a/'' = ?mux ''/a/''"
      by (rule spec)
    then have "mux' ''/a/'' = ?mux ''/a/''"
      using other by (rule mp)
    then have old: "mux' ''/a/'' = Some ?ha"
      by simp
    have "\<exists>mux'. Register indexTmpl ''/b/'' runtime_at_start ?mux = Inr mux'
        \<and> mux' ''/b/'' = Some (h indexTmpl ''/b/'' (Register_tmpInfo ''/b/'' runtime_at_start))
        \<and> mux' ''/a/'' = Some ?ha"
      using reg new old by (intro exI [of _ mux'] conjI)
    then show ?thesis
      using dup by (rule conjI)
  qed
qed

subsection \<open>Writers\<close>

lemma write_all_buffer: "write_all buffer_Write w ss = (w @ concat ss, None)"
  by (induction ss arbitrary: w) (simp_all add: buffer_Write_def)

lemma Execute_indexTmpl_buffer:
  "Execute indexTmpl rt buffer_Write w data = (w @ index_body rt data, None)"
  by (simp add: Execute_def indexTmpl_def write_all_buffer index_body_def)

lemma index_pieces_not_empty: "map print (index_pieces rt data) \<noteq> []"
  by (simp add: index_pieces_def)

lemma Execute_indexTmpl_broken:
  "Execute indexTmpl rt broken_Write w data = (w, Some (WriteError ''broken pipe''))"
proof -
  obtain s ss where "map print (index_pieces rt data) = s # ss"
    using index_pieces_not_empty [of rt data] by (cases "map print (index_pieces rt data)") auto
  then show ?thesis
    by (simp add: Execute_def indexTmpl_def broken_Write_def)
qed

subsection \<open>Sequences of requests\<close>

lemma serve_closure: "serve tmpl c calls = (c, map (\<lambda>x. snd (call_h tmpl c x)) calls)"
proof (induction calls)
  case Nil
  show ?case by simp
next
  case (Cons x xs)
  obtain rt Write w r where x: "x = (rt, Write, w, r)"
    by (cases x) auto
  show ?case
    by (simp add: Cons.IH x)
qed

text \<open>
  C9. \<open>Register\<close> creates the captured configuration (the prefix and \<open>tmpInfo\<close> with its
  profile list and its info-link list) and no call of the handler changes it: after
  any sequence of requests the captured variables hold what \<open>Register\<close> put there, the
  outcome of every request in the sequence is the one the handler computes from
  that configuration and the request's own arguments, and a request served after
  others gets the outcome it gets when served alone.
\<close>

theorem registration_never_mutated:
  "fst (serve tmpl (Register_closure pfx rt0) calls) = Register_closure pfx rt0
   \<and> captured_prefix (fst (serve tmpl (Register_closure pfx rt0) calls)) = pfx
   \<and> captured_tmpInfo (fst (serve tmpl (Register_closure pfx rt0) calls))
        = \<lparr>Profiles = pprof_Profiles rt0, Info = [''cmdline'', ''symbol''], Prefix = pfx\<rparr>
   \<and> snd (serve tmpl (Register_closure pfx rt0) calls)
        = map (\<lambda>(rt, Write, w, r). h tmpl pfx (Register_tmpInfo pfx rt0) rt Write w r) calls
   \<and> snd (serve tmpl (Register_closure pfx rt0) (calls @ [x]))
        = snd (serve tmpl (Register_closure pfx rt0) calls)
          @ snd (serve tmpl (Register_closure pfx rt0) [x])"
proof -
  let ?c = "Register_closure pfx rt0"
  have outcome: "snd (call_h tmpl ?c y)
      = (case y of (rt, Write, w, r) \<Rightarrow> h tmpl pfx (Register_tmpInfo pfx rt0) rt Write w r)" for y
    by (cases y) (simp add: Register_closure_def)
  have "fst (serve tmpl ?c calls) = ?c"
    by (simp add: serve_closure)
  moreover have "captured_prefix ?c = pfx"
    by (simp add: Register_closure_def)
  moreover have "captured_tmpInfo ?c
      = \<lparr>Profiles = pprof_Profiles rt0, Info = [''cmdline'', ''symbol''], Prefix = pfx\<rparr>"
    by (simp add: Register_closure_def Register_tmpInfo_def)
  moreover have "snd (serve tmpl ?c calls)
      = map (\<lambda>(rt, Write, w, r). h tmpl pfx (Register_tmpInfo pfx rt0) rt Write w r) calls"
    unfolding serve_closure snd_conv by (rule map_cong) (simp_all add: outcome)
  moreover have "snd (serve tmpl ?c (calls @ [x])) = snd (serve tmpl ?c calls) @ snd (serve tmpl ?c [x])"
    by (simp add: serve_closure)
  ultimately show ?thesis
    by simp
qed

theorem registration_never_mutated_witness:
  "serve indexTmpl (Register_closure ''/dbg/'' runtime_at_start)
     [(runtime_at_start, buffer_Write, '''', get_request ''/dbg/debug/pprof/heap''),
      (runtime_later, buffer_Write, '''', post_request ''/dbg/debug/pprof/symbol'')]
   = (\<lparr>captured_prefix = ''/dbg/'',
       captured_tmpInfo = \<lparr>Profiles = [goroutine_profile, heap_profile],
         Info = [''cmdline'', ''symbol''], Prefix = ''/dbg/''\<rparr>\<rparr>,
      [h indexTmpl ''/dbg/'' (Register_tmpInfo ''/dbg/'' runtime_at_start) runtime_at_start
         buffer_Write '''' (get_request ''/dbg/debug/pprof/heap''),
       h indexTmpl ''/dbg/'' (Register_tmpInfo ''/dbg/'' runtime_at_start) runtime_later
         buffer_Write '''' (post_request ''/dbg/debug/pprof/symbol'')])"
proof -
  let ?calls = "[(runtime_at_start, buffer_Write, '''', get_request ''/dbg/debug/pprof/heap''),
      (runtime_later, buffer_Write, '''', post_request ''/dbg/debug/pprof/symbol'')]"
  note R = registration_never_mutated [of indexTmpl "''/dbg/''" runtime_at_start ?calls]
  have c: "fst (serve indexTmpl (Register_closure ''/dbg/'' runtime_at_start) ?calls)
      = Register_closure ''/dbg/'' runtime_at_start"
    using R by (rule conjunct1)
  have outs: "snd (serve indexTmpl (Register_closure ''/dbg/'' runtime_at_start) ?calls)
      = map (\<lambda>(rt, Write, w, r).
          h indexTmpl ''/dbg/'' (Register_tmpInfo ''/dbg/'' runtime_at_start) rt Write w r) ?calls"
    using R [THEN conjunct2, THEN conjunct2, THEN conjunct2] by (rule conjunct1)
  have "serve indexTmpl (Register_closure ''/dbg/'' runtime_at_start) ?calls
      = (fst (serve indexTmpl (Register_closure ''/dbg/'' runtime_at_start) ?calls),
         snd (serve indexTmpl (Register_closure ''/dbg/'' runtime_at_start) ?calls))"
    by (rule prod.collapse [symmetric])
  also have "\<dots> = (Register_closure ''/dbg/'' runtime_at_start,
      map (\<lambda>(rt, Write, w, r).
          h indexTmpl ''/dbg/'' (Register_tmpInfo ''/dbg/'' runtime_at_start) rt Write w r) ?calls)"
    unfolding c outs ..
  finally show ?thesis
    by (simp add: Register_closure_def Register_tmpInfo_def runtime_at_start_def)
qed

subsection \<open>Two renders in a row\<close>

text \<open>
  C7. With the registration fixed and the runtime state the same at both requests, two
  successive requests for the index give the same outcome, whatever the writer and
  whatever else differs between the two requests; written to a buffer, both bodies
  are the same bytes, \<open>index_body\<close> of that runtime state, and so show the same counts.
\<close>

theorem index_render_idempotent:
  assumes "h_name pfx r1 = ''''" and "h_name pfx r2 = ''''"
  shows "snd (serve indexTmpl (Register_closure pfx rt0) [(rt, Write, w, r1), (rt, Write, w, r2)])
      = [Index_Executed (fst (Execute indexTmpl rt Write w (Register_tmpInfo pfx rt0))),
         Index_Executed (fst (Execute indexTmpl rt Write w (Register_tmpInfo pfx rt0)))]
   \<and> snd (serve indexTmpl (Register_closure pfx rt0)
        [(rt, buffer_Write, '''', r1), (rt, buffer_Write, '''', r2)])
      = [Index_Executed (index_body rt (Register_tmpInfo pfx rt0)),
         Index_Executed (index_body rt (Register_tmpInfo pfx rt0))]"
  using assms
  by (simp add: serve_closure Register_closure_def h_case_empty Execute_indexTmpl_buffer)

theorem index_render_idempotent_witness:
  "h_name ''/dbg/'' (get_request ''/dbg/debug/pprof/'') = ''''
   \<and> h_name ''/dbg/'' (post_request ''/dbg/debug/pprof/'') = ''''
   \<and> snd (serve indexTmpl (Register_closure ''/dbg/'' runtime_at_start)
        [(runtime_later, buffer_Write, '''', get_request ''/dbg/debug/pprof/''),
         (runtime_later, buffer_Write, '''', post_request ''/dbg/debug/pprof/'')])
      = [Index_Executed (index_body runtime_later (Register_tmpInfo ''/dbg/'' runtime_at_start)),
         Index_Executed (index_body runtime_later (Register_tmpInfo ''/dbg/'' runtime_at_start))]"
proof -
  have n1: "h_name ''/dbg/'' (get_request ''/dbg/debug/pprof/'') = ''''"
    by (simp add: h_name_def TrimPrefix_def HasPrefix_def get_request_def)
  have n2: "h_name ''/dbg/'' (post_request ''/dbg/debug/pprof/'') = ''''"
    by (simp add: h_name_def TrimPrefix_def HasPrefix_def post_request_def)
  have "snd (serve indexTmpl (Register_closure ''/dbg/'' runtime_at_start)
        [(runtime_later, buffer_Write, '''', get_request ''/dbg/debug/pprof/''),
         (runtime_later, buffer_Write, '''', post_request ''/dbg/debug/pprof/'')])
      = [Index_Executed (index_body runtime_later (Register_tmpInfo ''/dbg/'' runtime_at_start)),
         Index_Executed (index_body runtime_later (Register_tmpInfo ''/dbg/'' runtime_at_start))]"
    using index_render_idempotent [OF n1 n2, of runtime_at_start runtime_later buffer_Write "''''"]
    by (rule conjunct2)
  with n1 n2 show ?thesis
    by (intro conjI)
qed

subsection \<open>Template failures\<close>

lemma serve_outcomes:
  "snd (serve tmpl (Register_closure pfx rt0) calls)
     = map (\<lambda>(rt, Write, w, r). h tmpl pfx (Register_tmpInfo pfx rt0) rt Write w r) calls"
proof -
  have "snd (call_h tmpl (Register_closure pfx rt0) y)
      = (case y of (rt, Write, w, r) \<Rightarrow> h tmpl pfx (Register_tmpInfo pfx rt0) rt Write w r)" for y
    by (cases y) (simp add: Register_closure_def)
  then show ?thesis
    unfolding serve_closure snd_conv by (intro map_cong refl)
qed

lemma process_parser_state: "fst (process Parse p pfx rt0 calls) = fst (Parse p indexTmpl_source)"
  by (simp add: process_def package_init_def split: prod.splits sum.splits)

lemma process_aborted:
  assumes "snd (Parse p indexTmpl_source) = Inl err"
  shows "snd (process Parse p pfx rt0 calls) = Inl (Panic err)"
proof -
  obtain p' where "Parse p indexTmpl_source = (p', Inl err)"
    using assms by (cases "Parse p indexTmpl_source") simp
  then show ?thesis
    by (simp add: process_def package_init_def template_Must_def)
qed

lemma process_started:
  assumes "snd (Parse p indexTmpl_source) = Inr t"
  shows "snd (process Parse p pfx rt0 calls)
      = Inr (map (\<lambda>(rt, Write, w, r). h t pfx (Register_tmpInfo pfx rt0) rt Write w r) calls)"
proof -
  obtain p' where "Parse p indexTmpl_source = (p', Inr t)"
    using assms by (cases "Parse p indexTmpl_source") simp
  then show ?thesis
    by (simp add: process_def package_init_def template_Must_def serve_outcomes)
qed

lemma process_index:
  assumes "snd (Parse p indexTmpl_source) = Inr t" and "h_name pfx r = ''''"
  shows "snd (process Parse p pfx rt0 [(rt, Write, w, r)])
      = Inr [Index_Executed (fst (Execute t rt Write w (Register_tmpInfo pfx rt0)))]"
proof -
  have "snd (process Parse p pfx rt0 [(rt, Write, w, r)])
      = Inr [h t pfx (Register_tmpInfo pfx rt0) rt Write w r]"
    using process_started [of Parse p t pfx rt0 "[(rt, Write, w, r)]", OF assms(1)] by simp
  then show ?thesis
    using h_case_empty [OF assms(2), of t "Register_tmpInfo pfx rt0" rt Write w] by simp
qed

text \<open>
  C8. The template text is a constant of the package. Whatever requests come, a
  program that uses the package runs the parser once, on that text, during the
  initialisation of the package: the parser is left in the state that this one call
  left it in. When the call returns an error, \<open>template.Must\<close> panics with it and the panic
  is the result of the program: startup is aborted and no request is served. When the
  call returns a template, the program does not panic, however many requests it
  serves: every request gets the outcome of the handler run with that template, and
  the outcome of an index request is that \<open>Execute\<close> ran on the request's writer; it holds
  what \<open>Execute\<close> left in the writer and nothing of the error \<open>Execute\<close> returned.
\<close>

theorem template_failure_only_at_startup:
  "fst (process Parse p pfx rt0 calls) = fst (Parse p indexTmpl_source)
   \<and> (\<forall>err. snd (Parse p indexTmpl_source) = Inl err \<longrightarrow>
          snd (process Parse p pfx rt0 calls) = Inl (Panic err))
   \<and> (\<forall>t. snd (Parse p indexTmpl_source) = Inr t \<longrightarrow>
          snd (process Parse p pfx rt0 calls)
            = Inr (map (\<lambda>(rt, Write, w, r). h t pfx (Register_tmpInfo pfx rt0) rt Write w r) calls)
          \<and> (\<forall>rt Write w r. h_name pfx r = '''' \<longrightarrow>
                snd (process Parse p pfx rt0 [(rt, Write, w, r)])
                  = Inr [Index_Executed (fst (Execute t rt Write w (Register_tmpInfo pfx rt0)))]))"
  apply (intro conjI allI impI)
     apply (rule process_parser_state)
    apply (erule process_aborted)
   apply (erule process_started)
  apply (erule (1) process_index)
  done

text \<open>
  With a parser that rejects the template text the program ends in the panic, the
  parser having run once, and the request is not served. With a parser that accepts it,
  two index requests are served, the first on a writer whose every \<open>Write\<close> fails:
  \<open>Execute\<close> returns the error of the writer, the request completes all the same with
  nothing written, the second request gets the page, and the parser has run once.
\<close>

theorem template_failure_only_at_startup_witness:
  "process rejecting_Parse 0 ''/dbg/'' runtime_at_start
     [(runtime_later, buffer_Write, '''', get_request ''/dbg/debug/pprof/'')]
     = (1, Inl (Panic (ParseError ''template: index: unexpected EOF'')))
   \<and> snd (Execute indexTmpl runtime_later broken_Write ''''
        (Register_tmpInfo ''/dbg/'' runtime_at_start)) = Some (WriteError ''broken pipe'')
   \<and> process accepting_Parse 0 ''/dbg/'' runtime_at_start
     [(runtime_later, broken_Write, '''', get_request ''/dbg/debug/pprof/''),
      (runtime_later, buffer_Write, '''', get_request ''/dbg/debug/pprof/'')]
     = (1, Inr [Index_Executed '''',
                Index_Executed (index_body runtime_later (Register_tmpInfo ''/dbg/'' runtime_at_start))])"
proof -
  let ?d = "Register_tmpInfo ''/dbg/'' runtime_at_start"
  let ?r = "get_request ''/dbg/debug/pprof/''"
  let ?one = "[(runtime_later, buffer_Write, '''', ?r)]"
  let ?two = "[(runtime_later, broken_Write, '''', ?r), (runtime_later, buffer_Write, '''', ?r)]"
  have rej: "rejecting_Parse 0 indexTmpl_source
      = (1, Inl (ParseError ''template: index: unexpected EOF''))"
    by (simp add: rejecting_Parse_def)
  have acc: "accepting_Parse 0 indexTmpl_source = (1, Inr indexTmpl)"
    by (simp add: accepting_Parse_def)
  have name: "h_name ''/dbg/'' ?r = ''''"
    by (simp add: h_name_def TrimPrefix_def HasPrefix_def get_request_def)
  have broken: "Execute indexTmpl runtime_later broken_Write '''' ?d
      = ('''', Some (WriteError ''broken pipe''))"
    by (rule Execute_indexTmpl_broken)
  have buffer: "Execute indexTmpl runtime_later buffer_Write '''' ?d
      = (index_body runtime_later ?d, None)"
    using Execute_indexTmpl_buffer [of runtime_later "''''" ?d] by simp
  note R = template_failure_only_at_startup [of rejecting_Parse 0 "''/dbg/''" runtime_at_start ?one]
  note A = template_failure_only_at_startup [of accepting_Parse 0 "''/dbg/''" runtime_at_start ?two]
  have r1: "fst (process rejecting_Parse 0 ''/dbg/'' runtime_at_start ?one) = 1"
    using R [THEN conjunct1] by (simp add: rej)
  have "snd (rejecting_Parse 0 indexTmpl_source) = Inl (ParseError ''template: index: unexpected EOF'')"
    by (simp add: rej)
  with R [THEN conjunct2, THEN conjunct1, THEN spec]
  have r2: "snd (process rejecting_Parse 0 ''/dbg/'' runtime_at_start ?one)
      = Inl (Panic (ParseError ''template: index: unexpected EOF''))"
    by (rule mp)
  have rejected: "process rejecting_Parse 0 ''/dbg/'' runtime_at_start ?one
      = (1, Inl (Panic (ParseError ''template: index: unexpected EOF'')))"
    using r1 r2 by (simp add: prod_eq_iff)
  have a1: "fst (process accepting_Parse 0 ''/dbg/'' runtime_at_start ?two) = 1"
    using A [THEN conjunct1] by (simp add: acc)
  have "snd (accepting_Parse 0 indexTmpl_source) = Inr indexTmpl"
    by (simp add: acc)
  with A [THEN conjunct2, THEN conjunct2, THEN spec]
  have "snd (process accepting_Parse 0 ''/dbg/'' runtime_at_start ?two)
      = Inr (map (\<lambda>(rt, Write, w, r). h indexTmpl ''/dbg/'' ?d rt Write w r) ?two)
    \<and> (\<forall>rt (Write :: string Write) w r. h_name ''/dbg/'' r = '''' \<longrightarrow>
          snd (process accepting_Parse 0 ''/dbg/'' runtime_at_start [(rt, Write, w, r)])
            = Inr [Index_Executed (fst (Execute indexTmpl rt Write w ?d))])"
    by (rule mp)
  then have "snd (process accepting_Parse 0 ''/dbg/'' runtime_at_start ?two)
      = Inr (map (\<lambda>(rt, Write, w, r). h indexTmpl ''/dbg/'' ?d rt Write w r) ?two)"
    by (rule conjunct1)
  then have a2: "snd (process accepting_Parse 0 ''/dbg/'' runtime_at_start ?two)
      = Inr [Index_Executed '''', Index_Executed (index_body runtime_later ?d)]"
    by (simp add: h_case_empty [OF name] broken buffer)
  have accepted: "process accepting_Parse 0 ''/dbg/'' runtime_at_start ?two
      = (1, Inr [Index_Executed '''', Index_Executed (index_body runtime_later ?d)])"
    using a1 a2 by (simp add: prod_eq_iff)
  have failed: "snd (Execute indexTmpl runtime_later broken_Write '''' ?d)
      = Some (WriteError ''broken pipe'')"
    by (simp add: broken)
  from rejected failed accepted show ?thesis
    by (intro conjI)
qed

subsection \<open>Counts are read at render time\<close>

lemma shown_counts_append: "shown_counts (ps @ qs) = shown_counts ps @ shown_counts qs"
  by (induction ps rule: shown_counts.induct) simp_all

lemma shown_counts_profile_rows:
  "shown_counts (concat (map (profile_row rt data) ps)) = map (Count rt) ps"
  by (induction ps) (simp_all add: shown_counts_append profile_row_def)

lemma shown_counts_info_rows: "shown_counts (concat (map (info_row data) ss)) = []"
  by (induction ss) (simp_all add: shown_counts_append info_row_def)

lemma shown_counts_index_pieces:
  "shown_counts (index_pieces rt data) = map (Count rt) (Profiles data)"
  by (simp add: index_pieces_def shown_counts_append shown_counts_profile_rows
      shown_counts_info_rows)

lemma index_pieces_registration_counts:
  "index_pieces rt (Register_tmpInfo pfx (rt0\<lparr>Count := c\<rparr>)) = index_pieces rt (Register_tmpInfo pfx rt0)"
  by (simp add: Register_tmpInfo_def)

text \<open>
  C5. The profile list is captured once, by \<open>Register\<close>: it is \<open>pprof.Profiles()\<close> of the
  runtime state \<open>rt0\<close> at registration. The counts are not captured: a render in the
  runtime state \<open>rt\<close> shows, for the captured profiles in order, the counts \<open>Count()\<close>
  returns in \<open>rt\<close>, and the page does not depend on the counts the profiles had at
  registration.
\<close>

theorem index_counts_live:
  "Profiles (Register_tmpInfo pfx rt0) = pprof_Profiles rt0
   \<and> shown_counts (fst (indexTmpl rt (Register_tmpInfo pfx rt0))) = map (Count rt) (pprof_Profiles rt0)
   \<and> index_body rt (Register_tmpInfo pfx (rt0\<lparr>Count := c\<rparr>)) = index_body rt (Register_tmpInfo pfx rt0)"
proof (intro conjI)
  show "Profiles (Register_tmpInfo pfx rt0) = pprof_Profiles rt0"
    by (simp add: Register_tmpInfo_def)
  then show "shown_counts (fst (indexTmpl rt (Register_tmpInfo pfx rt0)))
      = map (Count rt) (pprof_Profiles rt0)"
    by (simp add: indexTmpl_def shown_counts_index_pieces)
  show "index_body rt (Register_tmpInfo pfx (rt0\<lparr>Count := c\<rparr>))
      = index_body rt (Register_tmpInfo pfx rt0)"
    unfolding index_body_def index_pieces_registration_counts ..
qed

text \<open>
  Registered when the goroutine and heap profiles held 3 and 12 samples, rendered
  when they hold 5 and 40: the page shows 5 and 40.
\<close>

theorem index_counts_live_witness:
  "map (Count runtime_at_start) (pprof_Profiles runtime_at_start) = [3, 12]
   \<and> shown_counts (fst (indexTmpl runtime_later (Register_tmpInfo ''/dbg/'' runtime_at_start)))
      = [5, 40]"
proof -
  have at_start: "map (Count runtime_at_start) (pprof_Profiles runtime_at_start) = [3, 12]"
    by (simp add: runtime_at_start_def goroutine_profile_def heap_profile_def)
  have later: "map (Count runtime_later) (pprof_Profiles runtime_at_start) = [5, 40]"
    by (simp add: runtime_at_start_def runtime_later_def goroutine_profile_def heap_profile_def)
  have "shown_counts (fst (indexTmpl runtime_later (Register_tmpInfo ''/dbg/'' runtime_at_start)))
      = map (Count runtime_later) (pprof_Profiles runtime_at_start)"
    using index_counts_live [of "''/dbg/''" runtime_at_start runtime_later, THEN conjunct2]
    by (rule conjunct1)
  then have "shown_counts (fst (indexTmpl runtime_later (Register_tmpInfo ''/dbg/'' runtime_at_start)))
      = [5, 40]"
    unfolding later .
  with at_start show ?thesis
    by (intro conjI)
qed

subsection \<open>What the index page contains\<close>

text \<open>
  \<open>sublist xs ys\<close> says that \<open>xs\<close> occurs in \<open>ys\<close> as a contiguous block:
  \<open>ys = ps @ xs @ ss\<close> for some \<open>ps\<close> and \<open>ss\<close>.
\<close>

lemma sublist_trans: "sublist xs ys \<Longrightarrow> sublist ys zs \<Longrightarrow> sublist xs zs"
  by (rule sublist_order.order.trans)

lemma sublist_concat_map:
  assumes "sublist qs ps"
  shows "sublist (concat (map f qs)) (concat (map f ps))"
proof -
  from assms obtain as bs where "ps = as @ qs @ bs"
    by (auto simp: sublist_def)
  then have "concat (map f ps) = concat (map f as) @ concat (map f qs) @ concat (map f bs)"
    by simp
  then show ?thesis
    by (simp only: sublist_appendI)
qed

lemma sublist_member_concat:
  assumes "y \<in> set ys"
  shows "sublist (g y) (concat (map g ys))"
proof -
  from assms obtain as bs where "ys = as @ y # bs"
    by (auto dest: split_list)
  then have "concat (map g ys) = concat (map g as) @ g y @ concat (map g bs)"
    by simp
  then show ?thesis
    by (simp only: sublist_appendI)
qed

lemma sublist_part1: "sublist a (a @ r @ c @ i @ e)"
  by (rule sublist_append_rightI)

lemma sublist_part2: "sublist r (a @ r @ c @ i @ e)"
  by (rule sublist_appendI)

lemma sublist_part3: "sublist c (a @ r @ c @ i @ e)"
  using sublist_appendI [of c "a @ r" "i @ e"] by simp

lemma sublist_part4: "sublist i (a @ r @ c @ i @ e)"
  using sublist_appendI [of i "a @ r @ c" e] by simp

lemma sublist_part5: "sublist e (a @ r @ c @ i @ e)"
  using sublist_append_leftI [of e "a @ r @ c @ i"] by simp

lemma body_contains:
  assumes "sublist window (index_pieces rt data)"
    and "sublist text (concat (map print window))"
  shows "sublist text (index_body rt data)"
  unfolding index_body_def
  using assms(2) sublist_concat_map [OF assms(1)] by (rule sublist_trans)

lemma profile_row_in_index:
  "p \<in> set (Profiles data) \<Longrightarrow> sublist (profile_row rt data p) (index_pieces rt data)"
  unfolding index_pieces_def
  by (rule sublist_trans [OF sublist_member_concat sublist_part2])

lemma info_row_in_index:
  "s \<in> set (Info data) \<Longrightarrow> sublist (info_row data s) (index_pieces rt data)"
  unfolding index_pieces_def
  by (rule sublist_trans [OF sublist_member_concat sublist_part4])

lemma body_title:
  "sublist (''<title>'' @ Prefix data @ ''debug/pprof/</title>'') (index_body rt data)"
proof (rule body_contains)
  show "sublist [TextNode ''<html>\<newline>  <head>\<newline>    <title>'',
      StringValue (Prefix data),
      TextNode ''debug/pprof/</title>\<newline>  </head>\<newline>  '',
      StringValue (Prefix data),
      TextNode ''debug/pprof/<br>\<newline>  <br>\<newline>  <body>\<newline>    profiles:<br>\<newline>    <table>\<newline>    '']
     (index_pieces rt data)"
    unfolding index_pieces_def by (rule sublist_part1)
  have "concat (map print [TextNode ''<html>\<newline>  <head>\<newline>    <title>'',
      StringValue (Prefix data),
      TextNode ''debug/pprof/</title>\<newline>  </head>\<newline>  '',
      StringValue (Prefix data),
      TextNode ''debug/pprof/<br>\<newline>  <br>\<newline>  <body>\<newline>    profiles:<br>\<newline>    <table>\<newline>    ''])
    = ''<html>\<newline>  <head>\<newline>    '' @ (''<title>'' @ Prefix data @ ''debug/pprof/</title>'')
      @ (''\<newline>  </head>\<newline>  '' @ Prefix data
         @ ''debug/pprof/<br>\<newline>  <br>\<newline>  <body>\<newline>    profiles:<br>\<newline>    <table>\<newline>    '')"
    by simp
  then show "sublist (''<title>'' @ Prefix data @ ''debug/pprof/</title>'')
     (concat (map print [TextNode ''<html>\<newline>  <head>\<newline>    <title>'',
      StringValue (Prefix data),
      TextNode ''debug/pprof/</title>\<newline>  </head>\<newline>  '',
      StringValue (Prefix data),
      TextNode ''debug/pprof/<br>\<newline>  <br>\<newline>  <body>\<newline>    profiles:<br>\<newline>    <table>\<newline>    '']))"
    by (simp only: sublist_appendI)
qed

lemma body_prefix: "sublist (Prefix data) (index_body rt data)"
proof -
  have "sublist (Prefix data) (''<title>'' @ Prefix data @ ''debug/pprof/</title>'')"
    by (rule sublist_appendI)
  then show ?thesis
    using body_title by (rule sublist_trans)
qed

lemma body_profile_row:
  assumes "p \<in> set (Profiles data)"
  shows "sublist (''<tr><td align=right>'' @ Itoa (Count rt p) @ ''<td>''
      @ href (Prefix data @ ''debug/pprof/'' @ Name p @ ''?debug=1'') @ Name p @ ''</a>'')
    (index_body rt data)"
proof (rule body_contains)
  show "sublist (profile_row rt data p) (index_pieces rt data)"
    using assms by (rule profile_row_in_index)
  have "concat (map print (profile_row rt data p))
    = ''\<newline>      '' @ (''<tr><td align=right>'' @ Itoa (Count rt p) @ ''<td>''
      @ href (Prefix data @ ''debug/pprof/'' @ Name p @ ''?debug=1'') @ Name p @ ''</a>'')
      @ ''\<newline>    ''"
    by (simp add: profile_row_def href_def)
  then show "sublist (''<tr><td align=right>'' @ Itoa (Count rt p) @ ''<td>''
      @ href (Prefix data @ ''debug/pprof/'' @ Name p @ ''?debug=1'') @ Name p @ ''</a>'')
    (concat (map print (profile_row rt data p)))"
    by (simp only: sublist_appendI)
qed

lemma body_info_row:
  assumes "s \<in> set (Info data)"
  shows "sublist (href (Prefix data @ ''debug/pprof/'' @ s) @ s @ ''</a>'') (index_body rt data)"
proof (rule body_contains)
  show "sublist (info_row data s) (index_pieces rt data)"
    using assms by (rule info_row_in_index)
  have "concat (map print (info_row data s))
    = ''\<newline>      <tr><td align=right><td>''
      @ (href (Prefix data @ ''debug/pprof/'' @ s) @ s @ ''</a>'') @ ''\<newline>    ''"
    by (simp add: info_row_def href_def)
  then show "sublist (href (Prefix data @ ''debug/pprof/'' @ s) @ s @ ''</a>'')
    (concat (map print (info_row data s)))"
    by (simp only: sublist_appendI)
qed

lemma body_cpu_link:
  "sublist (href (Prefix data @ ''debug/pprof/profile'') @ ''CPU</a>'') (index_body rt data)"
proof -
  let ?W = \<open>[TextNode ''\<newline>    <tr><td align=right><td><a href="'',
        StringValue (Prefix data),
        TextNode ''debug/pprof/profile">CPU</a>\<newline>    </table>\<newline>    <br>\<newline>    debug information:<br>\<newline>    <table>\<newline>    '']\<close>
  have window: "sublist ?W (index_pieces rt data)"
    unfolding index_pieces_def by (rule sublist_part3)
  have "concat (map print ?W)
    = ''\<newline>    <tr><td align=right><td>''
      @ (href (Prefix data @ ''debug/pprof/profile'') @ ''CPU</a>'')
      @ ''\<newline>    </table>\<newline>    <br>\<newline>    debug information:<br>\<newline>    <table>\<newline>    ''"
    by (simp add: href_def)
  then have "sublist (href (Prefix data @ ''debug/pprof/profile'') @ ''CPU</a>'')
      (concat (map print ?W))"
    by (simp only: sublist_appendI)
  with window show ?thesis
    by (rule body_contains)
qed

lemma body_goroutine_link:
  "sublist (href (Prefix data @ ''debug/pprof/goroutine?debug=2'') @ ''full goroutine stack dump</a>'')
     (index_body rt data)"
proof -
  let ?W = \<open>[TextNode ''\<newline>    <tr><td align=right><td><a href="'',
        StringValue (Prefix data),
        TextNode ''debug/pprof/goroutine?debug=2">full goroutine stack dump</a><br>\<newline>    <table>\<newline>  </body>\<newline></html>'']\<close>
  have window: "sublist ?W (index_pieces rt data)"
    unfolding index_pieces_def by (rule sublist_part5)
  have "concat (map print ?W)
    = ''\<newline>    <tr><td align=right><td>''
      @ (href (Prefix data @ ''debug/pprof/goroutine?debug=2'') @ ''full goroutine stack dump</a>'')
      @ ''<br>\<newline>    <table>\<newline>  </body>\<newline></html>''"
    by (simp add: href_def)
  then have "sublist
      (href (Prefix data @ ''debug/pprof/goroutine?debug=2'') @ ''full goroutine stack dump</a>'')
      (concat (map print ?W))"
    by (simp only: sublist_appendI)
  with window show ?thesis
    by (rule body_contains)
qed

text \<open>
  C4. The index page of a registration with prefix \<open>p\<close>, rendered in any runtime state,
  contains: the title \<open>p + "debug/pprof/"\<close>; for every profile captured at registration a
  table row with the profile's count in the runtime state of the render and a link
  to \<open>p + "debug/pprof/" + name + "?debug=1"\<close> labelled with the name; the link to
  \<open>p + "debug/pprof/profile"\<close> labelled CPU; the links to \<open>p + "debug/pprof/cmdline"\<close> and
  \<open>p + "debug/pprof/symbol"\<close>; the link to \<open>p + "debug/pprof/goroutine?debug=2"\<close>; and the
  prefix string itself.
\<close>

theorem index_page_contents:
  "sublist (''<title>'' @ p @ ''debug/pprof/</title>'') (index_body rt (Register_tmpInfo p rt0))
   \<and> (\<forall>prof \<in> set (pprof_Profiles rt0).
        sublist (''<tr><td align=right>'' @ Itoa (Count rt prof) @ ''<td>''
                 @ href (p @ ''debug/pprof/'' @ Name prof @ ''?debug=1'') @ Name prof @ ''</a>'')
          (index_body rt (Register_tmpInfo p rt0)))
   \<and> sublist (href (p @ ''debug/pprof/profile'') @ ''CPU</a>'')
        (index_body rt (Register_tmpInfo p rt0))
   \<and> sublist (href (p @ ''debug/pprof/cmdline'') @ ''cmdline</a>'')
        (index_body rt (Register_tmpInfo p rt0))
   \<and> sublist (href (p @ ''debug/pprof/symbol'') @ ''symbol</a>'')
        (index_body rt (Register_tmpInfo p rt0))
   \<and> sublist (href (p @ ''debug/pprof/goroutine?debug=2'') @ ''full goroutine stack dump</a>'')
        (index_body rt (Register_tmpInfo p rt0))
   \<and> sublist p (index_body rt (Register_tmpInfo p rt0))"
proof -
  let ?d = "Register_tmpInfo p rt0"
  have pre: "Prefix ?d = p" and profs: "Profiles ?d = pprof_Profiles rt0"
    and info: "Info ?d = [''cmdline'', ''symbol'']"
    by (simp_all add: Register_tmpInfo_def)
  have cmdline: "''cmdline'' \<in> set (Info ?d)" and symbol: "''symbol'' \<in> set (Info ?d)"
    by (simp_all add: info)
  show ?thesis
    using body_title [of ?d rt] body_profile_row [of _ ?d rt] body_cpu_link [of ?d rt]
      body_info_row [OF cmdline, of rt] body_info_row [OF symbol, of rt]
      body_goroutine_link [of ?d rt] body_prefix [of ?d rt]
    unfolding pre profs by simp
qed

theorem index_page_contents_witness:
  "heap_profile \<in> set (pprof_Profiles runtime_at_start)
   \<and> sublist (''<tr><td align=right>40<td>'' @ href ''/dbg/debug/pprof/heap?debug=1'' @ ''heap</a>'')
        (index_body runtime_later (Register_tmpInfo ''/dbg/'' runtime_at_start))
   \<and> sublist (href ''/dbg/debug/pprof/profile'' @ ''CPU</a>'')
        (index_body runtime_later (Register_tmpInfo ''/dbg/'' runtime_at_start))
   \<and> sublist ''/dbg/'' (index_body runtime_later (Register_tmpInfo ''/dbg/'' runtime_at_start))"
proof -
  let ?body = "index_body runtime_later (Register_tmpInfo ''/dbg/'' runtime_at_start)"
  note C = index_page_contents [of "''/dbg/''" runtime_later runtime_at_start]
  have member: "heap_profile \<in> set (pprof_Profiles runtime_at_start)"
    by (simp add: runtime_at_start_def)
  have "Count runtime_later heap_profile = 40"
    by (simp add: runtime_later_def heap_profile_def goroutine_profile_def)
  moreover have "Itoa 40 = ''40''"
    by code_simp
  ultimately have count: "Itoa (Count runtime_later heap_profile) = ''40''"
    by simp
  have name: "Name heap_profile = ''heap''"
    by (simp add: heap_profile_def)
  have "sublist (''<tr><td align=right>'' @ Itoa (Count runtime_later heap_profile) @ ''<td>''
        @ href (''/dbg/'' @ ''debug/pprof/'' @ Name heap_profile @ ''?debug=1'')
        @ Name heap_profile @ ''</a>'') ?body"
    using C [THEN conjunct2, THEN conjunct1] member by (rule bspec)
  then have row: "sublist (''<tr><td align=right>40<td>''
        @ href ''/dbg/debug/pprof/heap?debug=1'' @ ''heap</a>'') ?body"
    unfolding count name by simp
  have "sublist (href (''/dbg/'' @ ''debug/pprof/profile'') @ ''CPU</a>'') ?body"
    using C [THEN conjunct2, THEN conjunct2] by (rule conjunct1)
  then have cpu: "sublist (href ''/dbg/debug/pprof/profile'' @ ''CPU</a>'') ?body"
    by simp
  have pre: "sublist ''/dbg/'' ?body"
    using C [THEN conjunct2, THEN conjunct2, THEN conjunct2, THEN conjunct2, THEN conjunct2]
    by (rule conjunct2)
  from member row cpu pre show ?thesis
    by (intro conjI)
qed

subsection \<open>Escaping\<close>

lemma html_escape_char_safe: "\<not> html_significant c \<Longrightarrow> html_escape_char c = [c]"
  by (simp add: html_significant_def html_escape_char_def)

lemma html_escape_char_longer: "html_significant c \<Longrightarrow> 1 < length (html_escape_char c)"
  by (auto simp: html_significant_def html_escape_char_def)

lemma html_escape_char_length: "1 \<le> length (html_escape_char c)"
  by (simp add: html_escape_char_def)

lemma html_EscapeString_safe: "(\<forall>c \<in> set s. \<not> html_significant c) \<Longrightarrow> html_EscapeString s = s"
  by (induction s) (simp_all add: html_EscapeString_def html_escape_char_safe)

lemma html_EscapeString_length: "length s \<le> length (html_EscapeString s)"
proof (induction s)
  case Nil
  show ?case by (simp add: html_EscapeString_def)
next
  case (Cons c s)
  then show ?case
    using html_escape_char_length [of c] by (simp add: html_EscapeString_def)
qed

lemma html_EscapeString_same_length:
  "length (html_EscapeString s) = length s \<Longrightarrow> \<forall>c \<in> set s. \<not> html_significant c"
proof (induction s)
  case Nil
  show ?case by simp
next
  case (Cons c s)
  have total: "length (html_escape_char c) + length (html_EscapeString s) = 1 + length s"
    using Cons.prems by (simp add: html_EscapeString_def)
  have one: "length (html_escape_char c) = 1" and rest: "length (html_EscapeString s) = length s"
    using total html_escape_char_length [of c] html_EscapeString_length [of s] by linarith+
  from one have "\<not> html_significant c"
    using html_escape_char_longer [of c] by auto
  with Cons.IH [OF rest] show ?case
    by simp
qed

lemma print_length: "length (print p) \<le> length (spec_print p)"
  by (cases p) (simp_all add: html_EscapeString_length)

lemma printed_length:
  "length (concat (map print ps)) \<le> length (concat (map spec_print ps))"
proof (induction ps)
  case Nil
  show ?case by simp
next
  case (Cons p ps)
  then show ?case
    using print_length [of p] by simp
qed

lemma printed_same_length:
  "length (concat (map spec_print ps)) = length (concat (map print ps)) \<Longrightarrow>
     \<forall>s. StringValue s \<in> set ps \<longrightarrow> (\<forall>c \<in> set s. \<not> html_significant c)"
proof (induction ps)
  case Nil
  show ?case by simp
next
  case (Cons p ps)
  have total: "length (spec_print p) + length (concat (map spec_print ps))
      = length (print p) + length (concat (map print ps))"
    using Cons.prems by simp
  have first: "length (spec_print p) = length (print p)"
    and rest: "length (concat (map spec_print ps)) = length (concat (map print ps))"
    using total print_length [of p] printed_length [of ps] by linarith+
  have "\<forall>c \<in> set s. \<not> html_significant c" if "p = StringValue s" for s
    using first that by (simp add: html_EscapeString_same_length)
  with Cons.IH [OF rest] show ?case
    by auto
qed

lemma printed_safe:
  "(\<forall>s. StringValue s \<in> set ps \<longrightarrow> (\<forall>c \<in> set s. \<not> html_significant c)) \<Longrightarrow>
     concat (map spec_print ps) = concat (map print ps)"
proof (induction ps)
  case Nil
  show ?case by simp
next
  case (Cons p ps)
  have "spec_print p = print p"
  proof (cases p)
    case (StringValue s)
    with Cons.prems have "\<forall>c \<in> set s. \<not> html_significant c"
      by simp
    with StringValue show ?thesis
      by (simp add: html_EscapeString_safe)
  qed simp_all
  moreover have "concat (map spec_print ps) = concat (map print ps)"
    using Cons.prems by (intro Cons.IH) simp
  ultimately show ?case
    by simp
qed

lemma index_string_values:
  "StringValue s \<in> set (index_pieces rt data) \<longleftrightarrow>
     s = Prefix data \<or> s \<in> Name ` set (Profiles data) \<or> s \<in> set (Info data)"
  by (auto simp: index_pieces_def profile_row_def info_row_def)

lemma info_links_safe: "\<forall>s \<in> set [''cmdline'', ''symbol'']. \<forall>c \<in> set s. \<not> html_significant c"
  by (simp add: html_significant_def)

lemma bodies_agree_iff:
  "index_body rt (Register_tmpInfo pfx rt0) = spec_index_body rt (Register_tmpInfo pfx rt0)
   \<longleftrightarrow> (\<forall>c \<in> set pfx. \<not> html_significant c)
        \<and> (\<forall>prof \<in> set (pprof_Profiles rt0). \<forall>c \<in> set (Name prof). \<not> html_significant c)"
proof -
  let ?d = "Register_tmpInfo pfx rt0"
  let ?safe = "\<lambda>s. \<forall>c \<in> set s. \<not> html_significant c"
  have pieces: "(\<forall>s. StringValue s \<in> set (index_pieces rt ?d) \<longrightarrow> ?safe s)
      \<longleftrightarrow> ?safe pfx \<and> (\<forall>prof \<in> set (pprof_Profiles rt0). ?safe (Name prof))"
    unfolding index_string_values using info_links_safe
    by (auto simp: Register_tmpInfo_def)
  show ?thesis
  proof
    assume "index_body rt ?d = spec_index_body rt ?d"
    then have "length (concat (map spec_print (index_pieces rt ?d)))
        = length (concat (map print (index_pieces rt ?d)))"
      by (simp add: index_body_def spec_index_body_def)
    then have "\<forall>s. StringValue s \<in> set (index_pieces rt ?d) \<longrightarrow> ?safe s"
      by (rule printed_same_length)
    then show "?safe pfx \<and> (\<forall>prof \<in> set (pprof_Profiles rt0). ?safe (Name prof))"
      using pieces by blast
  next
    assume "?safe pfx \<and> (\<forall>prof \<in> set (pprof_Profiles rt0). ?safe (Name prof))"
    then have "\<forall>s. StringValue s \<in> set (index_pieces rt ?d) \<longrightarrow> ?safe s"
      using pieces by blast
    then have "concat (map spec_print (index_pieces rt ?d)) = concat (map print (index_pieces rt ?d))"
      by (rule printed_safe)
    then show "index_body rt ?d = spec_index_body rt ?d"
      by (simp add: index_body_def spec_index_body_def)
  qed
qed

text \<open>
  C2 as the spec states it: every dynamic string value is escaped, so the rendered
  page is the escaped rendering for every prefix and all profile names. It fails for
  a profile named \<open><i>\<close>: the page differs from the escaped rendering and contains
  the name as markup, in the link and as its label.
\<close>

theorem index_escaping_counterexample:
  "index_body runtime_with_markup (Register_tmpInfo ''/dbg/'' runtime_with_markup)
     \<noteq> spec_index_body runtime_with_markup (Register_tmpInfo ''/dbg/'' runtime_with_markup)
   \<and> sublist (href ''/dbg/debug/pprof/<i>?debug=1'' @ ''<i></a>'')
        (index_body runtime_with_markup (Register_tmpInfo ''/dbg/'' runtime_with_markup))"
proof
  let ?d = "Register_tmpInfo ''/dbg/'' runtime_with_markup"
  have "markup_profile \<in> set (pprof_Profiles runtime_with_markup)"
    and "CHR ''<'' \<in> set (Name markup_profile)" and "html_significant CHR ''<''"
    by (simp_all add: runtime_with_markup_def markup_profile_def html_significant_def)
  then have "\<not> (\<forall>prof \<in> set (pprof_Profiles runtime_with_markup).
      \<forall>c \<in> set (Name prof). \<not> html_significant c)"
    by blast
  then show "index_body runtime_with_markup ?d \<noteq> spec_index_body runtime_with_markup ?d"
    unfolding bodies_agree_iff by simp
  have "markup_profile \<in> set (Profiles ?d)"
    by (simp add: Register_tmpInfo_def runtime_with_markup_def)
  then have "sublist (''<tr><td align=right>'' @ Itoa (Count runtime_with_markup markup_profile)
      @ ''<td>'' @ href (Prefix ?d @ ''debug/pprof/'' @ Name markup_profile @ ''?debug=1'')
      @ Name markup_profile @ ''</a>'') (index_body runtime_with_markup ?d)"
    by (rule body_profile_row)
  moreover have "sublist (href ''/dbg/debug/pprof/<i>?debug=1'' @ ''<i></a>'')
     (''<tr><td align=right>'' @ Itoa (Count runtime_with_markup markup_profile)
      @ ''<td>'' @ href (Prefix ?d @ ''debug/pprof/'' @ Name markup_profile @ ''?debug=1'')
      @ Name markup_profile @ ''</a>'')"
  proof -
    have "''<tr><td align=right>'' @ Itoa (Count runtime_with_markup markup_profile)
      @ ''<td>'' @ href (Prefix ?d @ ''debug/pprof/'' @ Name markup_profile @ ''?debug=1'')
      @ Name markup_profile @ ''</a>''
      = (''<tr><td align=right>'' @ Itoa (Count runtime_with_markup markup_profile) @ ''<td>'')
        @ (href ''/dbg/debug/pprof/<i>?debug=1'' @ ''<i></a>'')"
      by (simp add: Register_tmpInfo_def markup_profile_def)
    then show ?thesis
      by (simp only: sublist_append_leftI)
  qed
  ultimately show "sublist (href ''/dbg/debug/pprof/<i>?debug=1'' @ ''<i></a>'')
      (index_body runtime_with_markup ?d)"
    by (rule sublist_trans [rotated])
qed

text \<open>
  C2, amended. The index template prints every dynamic string value as it is, without
  escaping. The rendered page is the escaped rendering, with no unescaped
  HTML-significant character from the prefix or a profile name, exactly when the
  prefix and the names of the captured profiles contain none of the characters
  \<open><\<close>, \<open>>\<close>, \<open>&\<close>, the apostrophe and the double quote.
\<close>

theorem index_values_verbatim:
  "print (StringValue s) = s
   \<and> (index_body rt (Register_tmpInfo pfx rt0) = spec_index_body rt (Register_tmpInfo pfx rt0)
        \<longleftrightarrow> (\<forall>c \<in> set pfx. \<not> html_significant c)
             \<and> (\<forall>prof \<in> set (pprof_Profiles rt0). \<forall>c \<in> set (Name prof). \<not> html_significant c))"
  using bodies_agree_iff [of rt pfx rt0] by simp

text \<open>
  The prefix \<open>/dbg/\<close> and the profile names \<open>goroutine\<close> and \<open>heap\<close> contain no
  HTML-significant character: the page is the escaped rendering.
\<close>

theorem index_values_verbatim_witness:
  "index_body runtime_later (Register_tmpInfo ''/dbg/'' runtime_at_start)
     = spec_index_body runtime_later (Register_tmpInfo ''/dbg/'' runtime_at_start)"
proof -
  have pre: "\<forall>c \<in> set ''/dbg/''. \<not> html_significant c"
    by (simp add: html_significant_def)
  have names: "\<forall>prof \<in> set (pprof_Profiles runtime_at_start).
      \<forall>c \<in> set (Name prof). \<not> html_significant c"
    by (simp add: runtime_at_start_def goroutine_profile_def heap_profile_def html_significant_def)
  from pre names have "(\<forall>c \<in> set ''/dbg/''. \<not> html_significant c)
      \<and> (\<forall>prof \<in> set (pprof_Profiles runtime_at_start).
            \<forall>c \<in> set (Name prof). \<not> html_significant c)"
    by (rule conjI)
  with index_values_verbatim [of _ runtime_later "''/dbg/''" runtime_at_start, THEN conjunct2]
  show ?thesis
    by (rule iffD2)
qed

end
